theory Spec2Isabelle
  imports Complex_Main "HOL-Library.AList"
begin

section \<open>Python values held by the inventory\<close>

text \<open>
  The inventory is a Python \<^verbatim>\<open>dict\<close>. Its values come from \<^verbatim>\<open>add_item\<close> and from
  \<^verbatim>\<open>json.load\<close>, so a stored value is any value that JSON can denote: \<^verbatim>\<open>None\<close>,
  a bool, an int (unbounded), a float, a string, a list or a dict with string keys.
  The float carrier is the type parameter \<open>'f\<close>; its arithmetic is passed to the
  functions that need it (\<open>float_ops\<close> below), so nothing is assumed about rounding,
  infinities or NaN. Item names are strings, as the docstrings give them
  (\<^verbatim>\<open>item (str)\<close>); a dict is an association list in insertion order.
\<close>

datatype 'f pyval =
    PNone
  | PBool bool
  | PInt int
  | PFloat 'f
  | PStr string
  | PList "'f pyval list"
  | PDict "(string \<times> 'f pyval) list"

type_synonym 'f stock = "(string \<times> 'f pyval) list"

text \<open>The exceptions that the modelled statements can raise.\<close>

datatype exn =
    KeyError
  | TypeError
  | OverflowError
  | OSError
  | FileNotFoundError
  | NotADirectoryError
  | IsADirectoryError
  | PermissionError
  | ValueError
  | UnicodeDecodeError
  | JSONDecodeError
  | RecursionError


text \<open>
  Float arithmetic as the interpreter provides it: the conversion of an int operand
  (\<open>None\<close> is \<^verbatim>\<open>OverflowError: int too large to convert to float\<close>), addition,
  subtraction, and the exact comparison \<^verbatim>\<open>x <= n\<close> of a float with an int.
\<close>

record 'f float_ops =
  float_of_int :: "int \<Rightarrow> 'f option"
  float_add :: "'f \<Rightarrow> 'f \<Rightarrow> 'f"
  float_sub :: "'f \<Rightarrow> 'f \<Rightarrow> 'f"
  float_le_int :: "'f \<Rightarrow> int \<Rightarrow> bool"

text \<open>\<^verbatim>\<open>bool\<close> is a subclass of \<^verbatim>\<open>int\<close>: \<^verbatim>\<open>True\<close> counts as 1 and \<^verbatim>\<open>False\<close> as 0.\<close>

fun int_of :: "'f pyval \<Rightarrow> int option" where
  "int_of (PInt i) = Some i"
| "int_of (PBool b) = Some (if b then 1 else 0)"
| "int_of _ = None"

definition isinstance_int :: "'f pyval \<Rightarrow> bool" where
  "isinstance_int v = (int_of v \<noteq> None)"

datatype 'f num = NInt int | NFloat 'f

fun num_of :: "'f pyval \<Rightarrow> 'f num option" where
  "num_of (PInt i) = Some (NInt i)"
| "num_of (PBool b) = Some (NInt (if b then 1 else 0))"
| "num_of (PFloat x) = Some (NFloat x)"
| "num_of _ = None"

definition numeric :: "'f pyval \<Rightarrow> bool" where
  "numeric v = (num_of v \<noteq> None)"

text \<open>The binary operator on two numbers: ints stay ints, a float operand makes a float.\<close>

fun num_binop ::
  "'f float_ops \<Rightarrow> (int \<Rightarrow> int \<Rightarrow> int) \<Rightarrow> ('f \<Rightarrow> 'f \<Rightarrow> 'f) \<Rightarrow> 'f num \<Rightarrow> 'f num \<Rightarrow> exn + 'f pyval" where
  "num_binop fo iop fop (NInt a) (NInt b) = Inr (PInt (iop a b))"
| "num_binop fo iop fop (NFloat x) (NFloat y) = Inr (PFloat (fop x y))"
| "num_binop fo iop fop (NInt a) (NFloat y) =
     (case float_of_int fo a of None \<Rightarrow> Inl OverflowError | Some x \<Rightarrow> Inr (PFloat (fop x y)))"
| "num_binop fo iop fop (NFloat x) (NInt b) =
     (case float_of_int fo b of None \<Rightarrow> Inl OverflowError | Some y \<Rightarrow> Inr (PFloat (fop x y)))"

text \<open>\<^verbatim>\<open>a + b\<close>: numbers add, strings and lists concatenate, anything else is a \<^verbatim>\<open>TypeError\<close>.\<close>

definition py_add :: "'f float_ops \<Rightarrow> 'f pyval \<Rightarrow> 'f pyval \<Rightarrow> exn + 'f pyval" where
  "py_add fo a b =
     (case (num_of a, num_of b) of
        (Some m, Some n) \<Rightarrow> num_binop fo (+) (float_add fo) m n
      | _ \<Rightarrow>
        (case (a, b) of
           (PStr s, PStr t) \<Rightarrow> Inr (PStr (s @ t))
         | (PList xs, PList ys) \<Rightarrow> Inr (PList (xs @ ys))
         | _ \<Rightarrow> Inl TypeError))"

text \<open>\<^verbatim>\<open>a - b\<close>: defined on numbers only.\<close>

definition py_sub :: "'f float_ops \<Rightarrow> 'f pyval \<Rightarrow> 'f pyval \<Rightarrow> exn + 'f pyval" where
  "py_sub fo a b =
     (case (num_of a, num_of b) of
        (Some m, Some n) \<Rightarrow> num_binop fo (-) (float_sub fo) m n
      | _ \<Rightarrow> Inl TypeError)"

text \<open>\<^verbatim>\<open>v <= n\<close> for an int \<open>n\<close>: a non-number on the left is a \<^verbatim>\<open>TypeError\<close>.\<close>

definition py_le_int :: "'f float_ops \<Rightarrow> 'f pyval \<Rightarrow> int \<Rightarrow> exn + bool" where
  "py_le_int fo v n =
     (case num_of v of
        Some (NInt a) \<Rightarrow> Inr (a \<le> n)
      | Some (NFloat x) \<Rightarrow> Inr (float_le_int fo x n)
      | None \<Rightarrow> Inl TypeError)"

text \<open>\<^verbatim>\<open>d.get(k, default)\<close>.\<close>

definition dict_get :: "'f stock \<Rightarrow> string \<Rightarrow> 'f pyval \<Rightarrow> 'f pyval" where
  "dict_get d k dflt = (case map_of d k of None \<Rightarrow> dflt | Some v \<Rightarrow> v)"

section \<open>Logging\<close>

text \<open>
  A call of \<^verbatim>\<open>logging.info\<close>, \<^verbatim>\<open>logging.warning\<close> or \<^verbatim>\<open>logging.error\<close> is the
  record of its level, its format string and its arguments; every function returns
  the records it emitted, in order.
\<close>

datatype level = INFO | WARNING | ERROR

datatype 'f log_arg = Obj "'f pyval" | Exc exn

type_synonym 'f log_record = "level \<times> string \<times> 'f log_arg list"

text \<open>
  An entry of the caller's action list, \<^verbatim>\<open>f"{datetime.now()}: Added {qty} of {item}"\<close>,
  kept as its three parts; the clock reading is an input.
\<close>

type_synonym 'f action = "string \<times> 'f pyval \<times> string"

section \<open>The inventory operations\<close>

definition get_qty :: "'f stock \<Rightarrow> string \<Rightarrow> 'f pyval" where
  "get_qty stock_data item = dict_get stock_data item (PInt 0)"

text \<open>
  \<^verbatim>\<open>add_item\<close> returns the dictionary, the action list and the log records, or the
  exception that line 39 raised (before the dictionary was written).
  \<open>logs = None\<close> is the default argument: a fresh list.
\<close>

definition add_item ::
  "'f float_ops \<Rightarrow> 'f stock \<Rightarrow> string \<Rightarrow> 'f pyval \<Rightarrow> 'f action list option \<Rightarrow> string
     \<Rightarrow> exn + ('f stock \<times> 'f action list \<times> 'f log_record list)" where
  "add_item fo stock_data item qty logs_arg now =
     (let logs = (case logs_arg of None \<Rightarrow> [] | Some l \<Rightarrow> l) in
      if item = [] then
        Inr (stock_data, logs, [(WARNING, ''No item name provided. Skipping.'', [])])
      else if \<not> isinstance_int qty then
        Inr (stock_data, logs,
             [(ERROR, ''Invalid quantity '%s' for item '%s'. Must be an integer.'',
               [Obj qty, Obj (PStr item)])])
      else
        (case py_add fo (dict_get stock_data item (PInt 0)) qty of
           Inl e \<Rightarrow> Inl e
         | Inr v \<Rightarrow>
             Inr (AList.update item v stock_data,
                  logs @ [(now, qty, item)],
                  [(INFO, ''Added %d of %s'', [Obj qty, Obj (PStr item)])])))"

text \<open>
  \<^verbatim>\<open>remove_item\<close>, statement by statement: the read \<^verbatim>\<open>stock_data[item]\<close>
  (\<^verbatim>\<open>KeyError\<close>), the subtraction, the write back, the comparison with 0, the
  deletion. \<open>remove_except\<close> is the pair of \<^verbatim>\<open>except\<close> clauses, applied to the
  dictionary as it is when the exception arrives; any other exception leaves the function.
\<close>

definition remove_except ::
  "'f stock \<Rightarrow> string \<Rightarrow> exn \<Rightarrow> exn + ('f stock \<times> 'f log_record list)" where
  "remove_except stock_data item e =
     (if e = KeyError then
        Inr (stock_data,
             [(WARNING, ''Failed to remove item '%s': Item not found in stock.'', [Obj (PStr item)])])
      else if e = TypeError then
        Inr (stock_data,
             [(ERROR, ''Failed to remove item '%s': Invalid quantity or stock value.'',
               [Obj (PStr item)])])
      else Inl e)"

definition remove_item ::
  "'f float_ops \<Rightarrow> 'f stock \<Rightarrow> string \<Rightarrow> 'f pyval \<Rightarrow> exn + ('f stock \<times> 'f log_record list)" where
  "remove_item fo stock_data item qty =
     (case map_of stock_data item of
        None \<Rightarrow> remove_except stock_data item KeyError
      | Some old \<Rightarrow>
          (case py_sub fo old qty of
             Inl e \<Rightarrow> remove_except stock_data item e
           | Inr new \<Rightarrow>
               (let stock1 = AList.update item new stock_data in
                case py_le_int fo new 0 of
                  Inl e \<Rightarrow> remove_except stock1 item e
                | Inr True \<Rightarrow>
                    Inr (AList.delete item stock1,
                         [(INFO, ''Removed item '%s' from stock (quantity was <= 0).'',
                           [Obj (PStr item)])])
                | Inr False \<Rightarrow> Inr (stock1, []))))"

text \<open>
  \<^verbatim>\<open>check_low_items\<close>: the loop over \<^verbatim>\<open>stock_data.items()\<close> with the result list
  as accumulator; the threshold is an int, as the docstring gives it, 5 by default.
\<close>

fun check_low_loop ::
  "'f float_ops \<Rightarrow> 'f stock \<Rightarrow> int \<Rightarrow> string list \<Rightarrow> exn + string list" where
  "check_low_loop fo [] threshold result = Inr result"
| "check_low_loop fo ((item, qty) # rest) threshold result =
     (case py_le_int fo qty threshold of
        Inl e \<Rightarrow> Inl e
      | Inr True \<Rightarrow> check_low_loop fo rest threshold (result @ [item])
      | Inr False \<Rightarrow> check_low_loop fo rest threshold result)"

definition check_low_items :: "'f float_ops \<Rightarrow> 'f stock \<Rightarrow> int \<Rightarrow> exn + string list" where
  "check_low_items fo stock_data threshold = check_low_loop fo stock_data threshold []"

definition default_threshold :: int where
  "default_threshold = 5"

definition check_low_items_default :: "'f float_ops \<Rightarrow> 'f stock \<Rightarrow> exn + string list" where
  "check_low_items_default fo stock_data = check_low_items fo stock_data default_threshold"

section \<open>Files\<close>

text \<open>
  What \<^verbatim>\<open>open\<close> finds at a path. \<open>TextFile\<close> is a regular file of UTF-8 text;
  \<open>BinaryFile\<close> a regular file whose bytes are not UTF-8 (reading it raises
  \<^verbatim>\<open>UnicodeDecodeError\<close>); \<open>Absent\<close> a free name in an existing directory;
  \<open>NoParent\<close> a name in a directory that does not exist; \<open>NotADir\<close> a name below
  something that is not a directory; \<open>Directory\<close> and \<open>Forbidden\<close> cannot be opened
  either way; \<open>WriteOnly\<close> is a file that may be written but not read;
  \<open>NullDevice\<close> takes every write and reads as empty. \<open>FullDisk text n\<close> is a regular
  file holding \<open>text\<close> on a device with no space left: it opens both ways, and the
  write fails with \<^verbatim>\<open>OSError\<close> when the stream hands its characters to the device,
  which it does once \<open>n\<close> of them are pending and otherwise at close.
\<close>

datatype node =
    TextFile string
  | BinaryFile
  | Absent
  | NoParent
  | NotADir
  | Directory
  | Forbidden
  | WriteOnly
  | NullDevice
  | FullDisk string nat

type_synonym fs = "string \<Rightarrow> node"

text \<open>\<^verbatim>\<open>open(file, "r", encoding="utf-8")\<close> and the read of the whole file.\<close>

fun open_read :: "node \<Rightarrow> exn + string" where
  "open_read (TextFile text) = Inr text"
| "open_read BinaryFile = Inl UnicodeDecodeError"
| "open_read Absent = Inl FileNotFoundError"
| "open_read NoParent = Inl FileNotFoundError"
| "open_read NotADir = Inl NotADirectoryError"
| "open_read Directory = Inl IsADirectoryError"
| "open_read Forbidden = Inl PermissionError"
| "open_read WriteOnly = Inl PermissionError"
| "open_read NullDevice = Inr []"
| "open_read (FullDisk text n) = Inr text"





section \<open>JSON\<close>

text \<open>
  The \<^verbatim>\<open>json\<close> module is the standard library's, not this program's. On a dictionary
  of integers, what \<^verbatim>\<open>json.dump(obj, f, indent=4)\<close> writes and what \<^verbatim>\<open>json.load\<close>
  reads back from such a text are written out here; on every other value and every
  other text the module is taken as given (\<open>json_lib\<close>). A character is a code point
  below 256.
\<close>

record 'f json_lib =
  dump_other :: "'f pyval \<Rightarrow> exn + string"
  load_other :: "string \<Rightarrow> exn + 'f pyval"

definition dq :: char where "dq = CHR 0x22"
definition bs :: char where "bs = CHR 0x5C"
definition nl :: char where "nl = CHR 0x0A"

definition code :: "char \<Rightarrow> nat" where
  "code c = of_char c"

subsection \<open>Integers\<close>


definition is_digit :: "char \<Rightarrow> bool" where
  "is_digit c = (48 \<le> code c \<and> code c \<le> 57)"

definition digit_val :: "char \<Rightarrow> nat" where
  "digit_val c = code c - 48"



definition int_max_str_digits :: nat where
  "int_max_str_digits = 4300"

definition read_nat :: "string \<Rightarrow> nat" where
  "read_nat ds = foldl (\<lambda>a c. 10 * a + digit_val c) 0 ds"

text \<open>
  The integer at the head of a text, \<^verbatim>\<open>-?(0|[1-9][0-9]*)\<close>, and the text after it;
  \<open>None\<close> where the digits are missing, start with a superfluous zero or are more
  than the limit.
\<close>

definition read_int :: "string \<Rightarrow> (int \<times> string) option" where
  "read_int text =
     (let neg = (text \<noteq> [] \<and> hd text = CHR ''-'');
          body = (if neg then tl text else text);
          ds = takeWhile is_digit body;
          rest = dropWhile is_digit body
      in if ds = [] \<or> (1 < length ds \<and> hd ds = CHR ''0'') \<or> int_max_str_digits < length ds
         then None
         else Some (if neg then - int (read_nat ds) else int (read_nat ds), rest))"

subsection \<open>Strings\<close>


definition hex_val :: "char \<Rightarrow> nat option" where
  "hex_val c =
     (if 48 \<le> code c \<and> code c \<le> 57 then Some (code c - 48)
      else if 97 \<le> code c \<and> code c \<le> 102 then Some (code c - 87)
      else if 65 \<le> code c \<and> code c \<le> 70 then Some (code c - 55)
      else None)"



text \<open>The character that a backslash and \<open>e\<close> stand for.\<close>

definition simple_escape :: "char \<Rightarrow> char option" where
  "simple_escape e =
     (if e = dq then Some dq
      else if e = bs then Some bs
      else if e = CHR ''/'' then Some (CHR ''/'')
      else if e = CHR ''n'' then Some (CHR 0x0A)
      else if e = CHR ''r'' then Some (CHR 0x0D)
      else if e = CHR ''t'' then Some (CHR 0x09)
      else if e = CHR ''b'' then Some (CHR 0x08)
      else if e = CHR ''f'' then Some (CHR 0x0C)
      else None)"

definition hex4 :: "char \<Rightarrow> char \<Rightarrow> char \<Rightarrow> char \<Rightarrow> nat option" where
  "hex4 a b c d =
     (case (hex_val a, hex_val b, hex_val c, hex_val d) of
        (Some w, Some x, Some y, Some z) \<Rightarrow> Some (4096 * w + 256 * x + 16 * y + z)
      | _ \<Rightarrow> None)"

definition put :: "char \<Rightarrow> (string \<times> string) option \<Rightarrow> (string \<times> string) option" where
  "put c r = (case r of None \<Rightarrow> None | Some (s, rest) \<Rightarrow> Some (c # s, rest))"

text \<open>
  The string whose opening quote has just been read, and the text after its closing
  quote; \<open>None\<close> on a raw control character, an unknown escape, a code point from 256
  on, or a missing closing quote.
\<close>

fun scan_string :: "string \<Rightarrow> (string \<times> string) option" where
  "scan_string [] = None"
| "scan_string (c # cs) =
     (if c = dq then Some ([], cs)
      else if c = bs then
        (case cs of
           [] \<Rightarrow> None
         | e # r \<Rightarrow>
             (if e = CHR ''u'' then
                (case r of
                   h1 # h2 # h3 # h4 # r4 \<Rightarrow>
                     (case hex4 h1 h2 h3 h4 of
                        None \<Rightarrow> None
                      | Some n \<Rightarrow> if n < 256 then put (char_of n) (scan_string r4) else None)
                 | _ \<Rightarrow> None)
              else
                (case simple_escape e of
                   None \<Rightarrow> None
                 | Some d \<Rightarrow> put d (scan_string r))))
      else if code c < 32 then None
      else put c (scan_string cs))"

subsection \<open>Objects of integers\<close>

text \<open>
  With \<^verbatim>\<open>indent=4\<close> the empty dictionary is \<^verbatim>\<open>{}\<close>; any other has one member per
  line, indented by four spaces, a comma after each but the last, and the closing
  brace on a line of its own.
\<close>

definition strip_prefix :: "string \<Rightarrow> string \<Rightarrow> string option" where
  "strip_prefix p text = (if take (length p) text = p then Some (drop (length p) text) else None)"

definition open_text :: string where "open_text = ''{'' @ [nl] @ ''    ''"
definition sep_text :: string where "sep_text = '','' @ [nl] @ ''    ''"
definition close_text :: string where "close_text = [nl] @ ''}''"
definition colon_text :: string where "colon_text = '': ''"




text \<open>The members of an object in this layout, from the first key to the closing brace.\<close>

function parse_members :: "string \<Rightarrow> (string \<times> int) list option" where
  "parse_members text =
     (case text of
        [] \<Rightarrow> None
      | c # t1 \<Rightarrow>
          if c \<noteq> dq then None
          else
            (case scan_string t1 of
               None \<Rightarrow> None
             | Some (key, t2) \<Rightarrow>
                 (case strip_prefix colon_text t2 of
                    None \<Rightarrow> None
                  | Some t3 \<Rightarrow>
                      (case read_int t3 of
                         None \<Rightarrow> None
                       | Some (q, t4) \<Rightarrow>
                           if t4 = close_text then Some [(key, q)]
                           else
                             (case strip_prefix sep_text t4 of
                                None \<Rightarrow> None
                              | Some t5 \<Rightarrow>
                                  (case parse_members t5 of
                                     None \<Rightarrow> None
                                   | Some m \<Rightarrow> Some ((key, q) # m)))))))"
  by pat_completeness auto
termination
proof -
  have scan: "scan_string t = Some (k, r) \<Longrightarrow> length r < length t" for t k r
  proof (induction t arbitrary: k r rule: length_induct)
    case (1 t)
    have "(\<exists>cs. t = dq # cs \<and> r = cs) \<or>
          (\<exists>u k'. length u < length t \<and> scan_string u = Some (k', r))"
      using 1(2)
      by (cases t) (fastforce simp: put_def split: if_splits option.splits list.splits)+
    then show ?case
    proof
      assume "\<exists>cs. t = dq # cs \<and> r = cs"
      then show ?thesis by auto
    next
      assume "\<exists>u k'. length u < length t \<and> scan_string u = Some (k', r)"
      then obtain u k' where u: "length u < length t" "scan_string u = Some (k', r)" by blast
      with 1(1) have "length r < length u" by blast
      with u show ?thesis by simp
    qed
  qed
  have strip: "strip_prefix p t = Some r \<Longrightarrow> length r \<le> length t" for p t r
    by (auto simp: strip_prefix_def split: if_splits)
  have rd: "read_int t = Some (q, r) \<Longrightarrow> length r \<le> length t" for t q r
  proof -
    have d: "length (dropWhile is_digit xs) \<le> length xs" for xs
      by (rule length_dropWhile_le)
    assume "read_int t = Some (q, r)"
    then have "r = dropWhile is_digit (tl t) \<or> r = dropWhile is_digit t"
      by (auto simp: read_int_def Let_def split: if_splits)
    then show ?thesis
      using d [of "tl t"] d [of t] by (cases t) auto
  qed
  show ?thesis
    by (relation "measure length") (auto dest!: scan strip rd)
qed

definition parse_object :: "string \<Rightarrow> (string \<times> int) list option" where
  "parse_object text =
     (if text = ''{}'' then Some []
      else case strip_prefix open_text text of
             None \<Rightarrow> None
           | Some t \<Rightarrow> parse_members t)"

text \<open>The dictionary of the members read: a repeated key keeps its place and takes the later value.\<close>

definition build_dict :: "(string \<times> int) list \<Rightarrow> 'f stock" where
  "build_dict m = foldl (\<lambda>d (k, q). AList.update k (PInt q) d) [] m"



text \<open>\<^verbatim>\<open>json.load(f)\<close> on the text read from the file.\<close>

definition json_load :: "'f json_lib \<Rightarrow> string \<Rightarrow> exn + 'f pyval" where
  "json_load js text =
     (case parse_object text of
        Some m \<Rightarrow> Inr (PDict (build_dict m))
      | None \<Rightarrow> load_other js text)"

section \<open>Loading and saving\<close>

definition load_except :: "string \<Rightarrow> exn \<Rightarrow> exn + ('f pyval \<times> 'f log_record list)" where
  "load_except file e =
     (if e = FileNotFoundError then
        Inr (PDict [],
             [(WARNING, ''Data file '%s' not found. Starting with empty inventory.'',
               [Obj (PStr file)])])
      else if e = JSONDecodeError then
        Inr (PDict [],
             [(ERROR, ''Could not decode JSON from '%s'. Starting with empty inventory.'',
               [Obj (PStr file)])])
      else Inl e)"

definition load_data ::
  "'f json_lib \<Rightarrow> fs \<Rightarrow> string \<Rightarrow> exn + ('f pyval \<times> 'f log_record list)" where
  "load_data js files file =
     (case open_read (files file) of
        Inl e \<Rightarrow> load_except file e
      | Inr text \<Rightarrow>
          (case json_load js text of
             Inl e \<Rightarrow> load_except file e
           | Inr data \<Rightarrow>
               Inr (data, [(INFO, ''Data loaded successfully from %s.'', [Obj (PStr file)])])))"




section \<open>Specification vocabulary\<close>

text \<open>
  An inventory as the specification describes it, item names with integer quantities
  in iteration order, and its Python dictionary.
\<close>

definition int_stock :: "(string \<times> int) list \<Rightarrow> 'f stock" where
  "int_stock m = map (\<lambda>(k, q). (k, PInt q)) m"

text \<open>Every stored quantity is an integer greater than 0.\<close>

definition positive_stock :: "'f stock \<Rightarrow> bool" where
  "positive_stock stock_data =
     list_all (\<lambda>(k, v). case int_of v of Some i \<Rightarrow> 0 < i | None \<Rightarrow> False) stock_data"


section \<open>Sample data\<close>

text \<open>
  Exact rationals stand in for floats where a concrete interpreter is needed;
  \<open>sample_json\<close> tabulates the \<^verbatim>\<open>json\<close> module on a few texts that are not objects
  of integers; \<open>apple_text\<close> is what \<^verbatim>\<open>json.dump({"apple": 10}, f, indent=4)\<close>
  writes. In \<open>empty_dir_fs\<close> no file exists yet; in \<open>missing_dir_fs\<close> the directory
  \<^verbatim>\<open>backup\<close> does not exist.
\<close>

definition rat_ops :: "rat float_ops" where
  "rat_ops = \<lparr> float_of_int = (\<lambda>i. Some (of_int i)), float_add = (+), float_sub = (-),
               float_le_int = (\<lambda>x n. x \<le> of_int n) \<rparr>"


definition sample_json :: "rat json_lib" where
  "sample_json =
     \<lparr> dump_other = (\<lambda>v. Inr ''null''),
       load_other = (\<lambda>t. if t = ''null'' then Inr PNone
                         else if t = ''[1, 2]'' then Inr (PList [PInt 1, PInt 2])
                         else Inl JSONDecodeError) \<rparr>"

definition empty_dir_fs :: fs where
  "empty_dir_fs = (\<lambda>path. Absent)"


declare parse_members.simps [simp del]

section \<open>Arithmetic on integer quantities\<close>

lemma py_sub_int:
  "int_of a = Some x \<Longrightarrow> int_of b = Some y \<Longrightarrow> py_sub fo a b = Inr (PInt (x - y))"
  by (cases a; cases b) (auto simp: py_sub_def)

lemma py_add_int:
  "int_of a = Some x \<Longrightarrow> int_of b = Some y \<Longrightarrow> py_add fo a b = Inr (PInt (x + y))"
  by (cases a; cases b) (auto simp: py_add_def)

lemma py_le_int_PInt: "py_le_int fo (PInt a) n = Inr (a \<le> n)"
  by (simp add: py_le_int_def)

lemma py_sub_not_numeric:
  "\<not> numeric a \<or> \<not> numeric b \<Longrightarrow> py_sub fo a b = Inl TypeError"
  by (auto simp: py_sub_def numeric_def split: option.splits)

lemma py_sub_numeric: "py_sub fo a b = Inr v \<Longrightarrow> numeric v"
  by (cases a; cases b) (auto simp: py_sub_def numeric_def split: option.splits if_splits)

lemma py_le_int_numeric: "numeric v \<Longrightarrow> \<exists>b. py_le_int fo v n = Inr b"
  by (cases v) (auto simp: py_le_int_def numeric_def)

lemma update_mem: "(k, v) \<in> set (AList.update k v al)"
  by (induction al) auto

text \<open>The loop of \<^verbatim>\<open>check_low_items\<close> on integer quantities, for any result list so far.\<close>

lemma check_low_loop_int:
  "check_low_loop fo (int_stock m) t acc = Inr (acc @ [k. (k, q) \<leftarrow> m, q \<le> t])"
proof (induction m arbitrary: acc)
  case Nil
  show ?case by (simp add: int_stock_def)
next
  case (Cons p m)
  obtain k q where p: "p = (k, q)" by (cases p)
  have step: "int_stock ((k, q) # m) = (k, PInt q) # int_stock m"
    by (simp add: int_stock_def)
  show ?case
  proof (cases "q \<le> t")
    case True
    then show ?thesis
      using Cons.IH [of "acc @ [k]"] by (simp add: step p py_le_int_PInt)
  next
    case False
    then show ?thesis
      using Cons.IH [of acc] by (simp add: step p py_le_int_PInt)
  qed
qed

section \<open>The dictionary keeps its keys distinct\<close>

lemma add_item_distinct:
  assumes "distinct (map fst stock_data)"
    and "add_item fo stock_data item qty logs now = Inr (stock1, logs1, sigs)"
  shows "distinct (map fst stock1)"
  using assms
  by (auto simp: add_item_def Let_def distinct_update split: if_splits sum.splits)

lemma remove_item_distinct:
  assumes "distinct (map fst stock_data)"
    and "remove_item fo stock_data item qty = Inr (stock1, sigs)"
  shows "distinct (map fst stock1)"
  using assms
  by (auto simp: remove_item_def remove_except_def Let_def distinct_update distinct_delete
           split: option.splits sum.splits if_splits bool.splits)

text \<open>
  The comparison at line 59 cannot fail: what line 58 stored is a number. So a
  \<^verbatim>\<open>TypeError\<close> in \<^verbatim>\<open>remove_item\<close> always comes from the subtraction, before the
  dictionary is written.
\<close>

lemma remove_item_error_before_write:
  assumes "py_sub fo old qty = Inr new"
  shows "\<exists>b. py_le_int fo new 0 = Inr b"
  using assms by (intro py_le_int_numeric) (rule py_sub_numeric)

text \<open>
  For any numbers, floats included: when \<^verbatim>\<open>remove_item\<close> returns and the name is still
  stored, either nothing was written and an error was logged, or the stored value is
  the difference and it is not \<^verbatim>\<open><= 0\<close>.
\<close>

lemma py_sub_raises: "py_sub fo a b = Inl e \<Longrightarrow> e = TypeError \<or> e = OverflowError"
  by (cases a; cases b) (auto simp: py_sub_def split: option.splits if_splits)

lemma remove_item_never_leaves_depleted:
  assumes "remove_item fo stock_data item qty = Inr (stock1, sigs)"
    and "map_of stock_data item = Some old"
    and "map_of stock1 item = Some v"
  shows "(stock1 = stock_data \<and> map fst sigs = [ERROR]) \<or>
         (py_sub fo old qty = Inr v \<and> py_le_int fo v 0 = Inr False \<and> sigs = [])"
proof (cases "py_sub fo old qty")
  case (Inl e)
  then have "e = TypeError \<or> e = OverflowError"
    by (rule py_sub_raises)
  with assms Inl show ?thesis
    by (auto simp: remove_item_def remove_except_def)
next
  case (Inr new)
  then obtain b where b: "py_le_int fo new 0 = Inr b"
    using remove_item_error_before_write by blast
  show ?thesis
  proof (cases b)
    case True
    with assms Inr b have "stock1 = AList.delete item (AList.update item new stock_data)"
      by (simp add: remove_item_def Let_def)
    then have "map_of stock1 item = None"
      by (simp add: delete_conv')
    with assms(3) show ?thesis by simp
  next
    case False
    with assms Inr b show ?thesis
      by (auto simp: remove_item_def Let_def update_conv')
  qed
qed

section \<open>Reading back what was written\<close>

subsection \<open>Integers\<close>
















subsection \<open>Strings\<close>







subsection \<open>Objects of integers\<close>















text \<open>The texts that \<open>sample_json\<close> answers for are not objects of integers.\<close>

lemma parse_object_other:
  "parse_object [] = None" "parse_object ''null'' = None" "parse_object ''[1, 2]'' = None"
  "parse_object ''{apple'' = None"
  by (simp_all add: parse_object_def strip_prefix_def open_text_def nl_def)

section \<open>Properties\<close>

text \<open>
  C1: for every dictionary and every name present in it with an integer quantity
  \<open>a\<close>, \<^verbatim>\<open>remove_item\<close> of an integer quantity \<open>q\<close> succeeds. When \<open>a - q \<le> 0\<close> the
  name is deleted from the dictionary (it is not left stored as zero or negative)
  and one informational record is emitted; otherwise the name is stored with
  \<open>a - q\<close> and nothing is logged. Every other name keeps its value. In particular,
  removing 10 from \<^verbatim>\<open>{"apple": 10}\<close> gives the empty dictionary.
\<close>

theorem remove_item_decrements:
  assumes "map_of stock_data item = Some old" and "int_of old = Some a" and "int_of qty = Some q"
  shows "case remove_item fo stock_data item qty of
           Inl e \<Rightarrow> False
         | Inr (stock1, sigs) \<Rightarrow>
             (if a - q \<le> 0
              then map_of stock1 = (map_of stock_data)(item := None) \<and>
                   item \<notin> fst ` set stock1 \<and> map fst sigs = [INFO]
              else map_of stock1 = (map_of stock_data)(item \<mapsto> PInt (a - q)) \<and> sigs = [])"
  using assms
  by (cases "a - q \<le> 0")
     (simp_all add: remove_item_def py_sub_int py_le_int_PInt Let_def update_conv' delete_conv'
                delete_notin_dom)

theorem remove_item_decrements_witness:
  "remove_item rat_ops [(''apple'', PInt 10)] ''apple'' (PInt 10) =
     Inr ([], [(INFO, ''Removed item '%s' from stock (quantity was <= 0).'', [Obj (PStr ''apple'')])]) \<and>
   remove_item rat_ops [(''apple'', PInt 10)] ''apple'' (PInt 3) = Inr ([(''apple'', PInt 7)], [])"
  using remove_item_decrements [of "[(''apple'', PInt 10)]" "''apple''" "PInt 10" 10 "PInt 10" 10 rat_ops]
        remove_item_decrements [of "[(''apple'', PInt 10)]" "''apple''" "PInt 10" 10 "PInt 3" 3 rat_ops]
  by (simp add: remove_item_def py_sub_def py_le_int_def)






text \<open>
  C4: for every dictionary, \<^verbatim>\<open>add_item\<close> with an empty name, or with a quantity that
  is not an \<^verbatim>\<open>int\<close>, returns with the dictionary and the action list unchanged and
  emits exactly one record: a warning for the empty name (the name is checked
  first), an error for the quantity.
\<close>

theorem add_item_rejects:
  assumes "item = [] \<or> \<not> isinstance_int qty"
  shows "\<exists>msg args.
           add_item fo stock_data item qty logs now =
             Inr (stock_data, (case logs of None \<Rightarrow> [] | Some l \<Rightarrow> l),
                  [(if item = [] then WARNING else ERROR, msg, args)])"
  using assms by (auto simp: add_item_def)

theorem add_item_rejects_witness:
  "add_item rat_ops [(''apple'', PInt 4)] [] (PInt 3) (Some []) ''t'' =
     Inr ([(''apple'', PInt 4)], [], [(WARNING, ''No item name provided. Skipping.'', [])]) \<and>
   add_item rat_ops [(''apple'', PInt 4)] ''apple'' (PStr ''ten'') (Some []) ''t'' =
     Inr ([(''apple'', PInt 4)], [],
          [(ERROR, ''Invalid quantity '%s' for item '%s'. Must be an integer.'',
            [Obj (PStr ''ten''), Obj (PStr ''apple'')])]) \<and>
   (\<exists>msg args. add_item rat_ops [(''apple'', PInt 4)] ''apple'' (PFloat (3 / 2)) (Some []) ''t'' =
     Inr ([(''apple'', PInt 4)], [], [(ERROR, msg, args)]))"
  using add_item_rejects [of "[]" "PInt 3 :: rat pyval" rat_ops "[(''apple'', PInt 4)]" "Some []" "''t''"]
        add_item_rejects [of "''apple''" "PStr ''ten'' :: rat pyval" rat_ops "[(''apple'', PInt 4)]" "Some []" "''t''"]
        add_item_rejects [of "''apple''" "PFloat (3 / 2) :: rat pyval" rat_ops "[(''apple'', PInt 4)]" "Some []" "''t''"]
  by (simp add: add_item_def isinstance_int_def)

text \<open>
  C5: for every dictionary, \<^verbatim>\<open>remove_item\<close> with a name that is absent, or with a
  stored value or a quantity that is not a number, returns with the dictionary
  unchanged and emits exactly one record: a warning for the absent name (the lookup
  comes first), an error for the operand.
\<close>

theorem remove_item_rejects:
  assumes "map_of stock_data item = None \<or> \<not> numeric qty \<or>
           (\<exists>old. map_of stock_data item = Some old \<and> \<not> numeric old)"
  shows "\<exists>msg args.
           remove_item fo stock_data item qty =
             Inr (stock_data,
                  [(if map_of stock_data item = None then WARNING else ERROR, msg, args)])"
proof (cases "map_of stock_data item")
  case None
  then show ?thesis by (simp add: remove_item_def remove_except_def)
next
  case (Some old)
  with assms have "\<not> numeric old \<or> \<not> numeric qty" by auto
  then have "py_sub fo old qty = Inl TypeError" by (rule py_sub_not_numeric)
  with Some show ?thesis by (simp add: remove_item_def remove_except_def)
qed

theorem remove_item_rejects_witness:
  "remove_item rat_ops [(''apple'', PInt 7)] ''orange'' (PInt 1) =
     Inr ([(''apple'', PInt 7)],
          [(WARNING, ''Failed to remove item '%s': Item not found in stock.'', [Obj (PStr ''orange'')])]) \<and>
   remove_item rat_ops [(''apple'', PInt 7)] ''apple'' (PStr ''ten'') =
     Inr ([(''apple'', PInt 7)],
          [(ERROR, ''Failed to remove item '%s': Invalid quantity or stock value.'', [Obj (PStr ''apple'')])]) \<and>
   remove_item rat_ops [(''apple'', PNone)] ''apple'' (PInt 1) =
     Inr ([(''apple'', PNone)],
          [(ERROR, ''Failed to remove item '%s': Invalid quantity or stock value.'', [Obj (PStr ''apple'')])])"
  using remove_item_rejects [of "[(''apple'', PInt 7)]" "''orange''" "PInt 1 :: rat pyval" rat_ops]
        remove_item_rejects [of "[(''apple'', PInt 7)]" "''apple''" "PStr ''ten'' :: rat pyval" rat_ops]
        remove_item_rejects [of "[(''apple'', PNone)]" "''apple''" "PInt 1 :: rat pyval" rat_ops]
  by (simp add: remove_item_def remove_except_def py_sub_def)




text \<open>
  C7: for every inventory of integer quantities and every threshold,
  \<^verbatim>\<open>check_low_items\<close> returns exactly the names whose quantity is at most the
  threshold, in iteration order; the threshold is 5 when it is not given; and
  \<^verbatim>\<open>check_low_items({"a": 1, "b": 6, "c": 5}, 5)\<close> is \<^verbatim>\<open>["a", "c"]\<close>.
\<close>

theorem check_low_items_exact:
  "check_low_items fo (int_stock m) t = Inr [k. (k, q) \<leftarrow> m, q \<le> t] \<and>
   check_low_items_default fo (int_stock m) = Inr [k. (k, q) \<leftarrow> m, q \<le> 5] \<and>
   check_low_items fo (int_stock [(''a'', 1), (''b'', 6), (''c'', 5)]) 5 = Inr [''a'', ''c'']"
  by (simp add: check_low_items_def check_low_items_default_def default_threshold_def
                check_low_loop_int)

theorem check_low_items_exact_witness:
  "check_low_items rat_ops [(''a'', PInt 1), (''b'', PInt 6), (''c'', PInt 5)] 5 = Inr [''a'', ''c''] \<and>
   check_low_items_default rat_ops [(''a'', PInt 1), (''b'', PInt 6), (''c'', PInt 5)] = Inr [''a'', ''c''] \<and>
   check_low_items rat_ops [(''c'', PInt 5), (''b'', PInt 6), (''a'', PInt 1)] 5 = Inr [''c'', ''a'']"
  using check_low_items_exact [of rat_ops "[(''a'', 1), (''b'', 6), (''c'', 5)]" 5]
        check_low_items_exact [of rat_ops "[(''c'', 5), (''b'', 6), (''a'', 1)]" 5]
  by (simp add: int_stock_def)

text \<open>
  C8: \<^verbatim>\<open>get_qty\<close> is total, with no failure mode: for every dictionary and every
  name it returns 0 when the name is absent, and the stored value when the name is
  present.
\<close>

theorem get_qty_total:
  "(item \<notin> fst ` set stock_data \<longrightarrow> get_qty stock_data item = PInt 0) \<and>
   (\<forall>v. distinct (map fst stock_data) \<and> (item, v) \<in> set stock_data
        \<longrightarrow> get_qty stock_data item = v)"
proof (intro conjI impI allI)
  assume "item \<notin> fst ` set stock_data"
  then have "map_of stock_data item = None"
    by (simp add: map_of_eq_None_iff)
  then show "get_qty stock_data item = PInt 0"
    by (simp add: get_qty_def dict_get_def)
next
  fix v
  assume "distinct (map fst stock_data) \<and> (item, v) \<in> set stock_data"
  then have "map_of stock_data item = Some v"
    by simp
  then show "get_qty stock_data item = v"
    by (simp add: get_qty_def dict_get_def)
qed

theorem get_qty_total_witness:
  "get_qty [(''apple'', PInt 7)] ''missing'' = (PInt 0 :: rat pyval) \<and>
   get_qty [(''apple'', PInt 7)] ''apple'' = (PInt 7 :: rat pyval)"
  using get_qty_total [of "''missing''" "[(''apple'', PInt 7 :: rat pyval)]"]
        get_qty_total [of "''apple''" "[(''apple'', PInt 7 :: rat pyval)]"]
  by simp

text \<open>
  C9: \<^verbatim>\<open>add_item\<close> with a non-empty name and a negative integer \<open>q\<close>, on a
  dictionary whose quantity for the name is an integer \<open>a\<close> (0 when absent), is
  accepted: it stores \<open>a + q\<close> under the name, whatever its sign, and the name stays
  in the dictionary. When \<open>a + q \<le> 0\<close> the resulting dictionary is not
  \<open>positive_stock\<close>: only \<^verbatim>\<open>remove_item\<close> deletes a depleted name, so "every stored
  quantity is greater than 0" is not preserved by \<^verbatim>\<open>add_item\<close>.
\<close>

theorem add_item_keeps_nonpositive:
  assumes "item \<noteq> []" and "q < 0" and "int_of (get_qty stock_data item) = Some a"
  shows "\<exists>msg args.
           add_item fo stock_data item (PInt q) logs now =
             Inr (AList.update item (PInt (a + q)) stock_data,
                  (case logs of None \<Rightarrow> [] | Some l \<Rightarrow> l) @ [(now, PInt q, item)],
                  [(INFO, msg, args)]) \<and>
           map_of (AList.update item (PInt (a + q)) stock_data) item = Some (PInt (a + q)) \<and>
           item \<in> fst ` set (AList.update item (PInt (a + q)) stock_data) \<and>
           (a + q \<le> 0 \<longrightarrow> \<not> positive_stock (AList.update item (PInt (a + q)) stock_data))"
proof -
  have mem: "(item, PInt (a + q)) \<in> set (AList.update item (PInt (a + q)) stock_data)"
    by (rule update_mem)
  have "a + q \<le> 0 \<Longrightarrow> \<not> positive_stock (AList.update item (PInt (a + q)) stock_data)"
    using mem by (force simp: positive_stock_def list_all_iff)
  moreover have "py_add fo (dict_get stock_data item (PInt 0)) (PInt q) = Inr (PInt (a + q))"
    using assms(3) by (simp add: py_add_int get_qty_def)
  ultimately show ?thesis
    using assms(1) by (simp add: add_item_def isinstance_int_def update_conv' dom_update)
qed

theorem add_item_keeps_nonpositive_witness:
  "positive_stock [(''apple'', PInt 3 :: rat pyval)] \<and>
   add_item rat_ops [(''apple'', PInt 3)] ''apple'' (PInt (- 3)) None ''t'' =
     Inr ([(''apple'', PInt 0)], [(''t'', PInt (- 3), ''apple'')],
          [(INFO, ''Added %d of %s'', [Obj (PInt (- 3)), Obj (PStr ''apple'')])]) \<and>
   \<not> positive_stock [(''apple'', PInt 0 :: rat pyval)] \<and>
   add_item rat_ops [] ''pear'' (PInt (- 2)) None ''t'' =
     Inr ([(''pear'', PInt (- 2))], [(''t'', PInt (- 2), ''pear'')],
          [(INFO, ''Added %d of %s'', [Obj (PInt (- 2)), Obj (PStr ''pear'')])])"
  using add_item_keeps_nonpositive [of "''apple''" "- 3" "[(''apple'', PInt 3 :: rat pyval)]" 3 rat_ops None "''t''"]
        add_item_keeps_nonpositive [of "''pear''" "- 2" "[] :: rat stock" 0 rat_ops None "''t''"]
  by (simp add: positive_stock_def add_item_def isinstance_int_def get_qty_def dict_get_def py_add_def)

text \<open>
  C10: \<^verbatim>\<open>load_data\<close> does not look at the shape of what it parsed: for every file
  holding a text that \<^verbatim>\<open>json.load\<close> parses, it returns the parsed value as it is,
  with one informational record, whether or not the value is a dictionary of
  integer quantities (a JSON array comes back as a list, \<^verbatim>\<open>null\<close> as \<^verbatim>\<open>None\<close>).
\<close>

theorem load_data_unvalidated:
  assumes "files file = TextFile text" and "json_load js text = Inr data"
  shows "\<exists>msg args. load_data js files file = Inr (data, [(INFO, msg, args)])"
  using assms by (simp add: load_data_def)

theorem load_data_unvalidated_witness:
  "load_data sample_json (empty_dir_fs(''inventory.json'' := TextFile ''[1, 2]'')) ''inventory.json'' =
     Inr (PList [PInt 1, PInt 2],
          [(INFO, ''Data loaded successfully from %s.'', [Obj (PStr ''inventory.json'')])]) \<and>
   load_data sample_json (empty_dir_fs(''inventory.json'' := TextFile ''null'')) ''inventory.json'' =
     Inr (PNone,
          [(INFO, ''Data loaded successfully from %s.'', [Obj (PStr ''inventory.json'')])])"
  using load_data_unvalidated
          [of "empty_dir_fs(''inventory.json'' := TextFile ''[1, 2]'')" "''inventory.json''" "''[1, 2]''"
              sample_json "PList [PInt 1, PInt 2]"]
        load_data_unvalidated
          [of "empty_dir_fs(''inventory.json'' := TextFile ''null'')" "''inventory.json''" "''null''"
              sample_json PNone]
  by (simp add: load_data_def json_load_def parse_object_other sample_json_def)

end
